theory Spec2Isabelle
  imports Main "HOL-Library.AList"
begin

section \<open>JavaScript values\<close>

text \<open>
  The values that reach \<^verbatim>\<open>lib/sockets.js\<close>: the primitives, functions, arrays and plain
  objects. Functions, arrays and objects carry their address, since \<^verbatim>\<open>===\<close> compares them
  by identity; an array or object also carries its own properties as they are when the
  value is passed. Numbers are the integer-valued ones (NaN, infinities and fractions are
  not modelled).
\<close>

datatype jsval =
    JUndefined
  | JNull
  | JBool bool
  | JNum int
  | JStr string
  | JFun nat
  | JArr nat "jsval list"
  | JObj nat "(string \<times> jsval) list"

fun typeof :: "jsval \<Rightarrow> string" where
  "typeof JUndefined = ''undefined''"
| "typeof JNull = ''object''"
| "typeof (JBool b) = ''boolean''"
| "typeof (JNum n) = ''number''"
| "typeof (JStr s) = ''string''"
| "typeof (JFun f) = ''function''"
| "typeof (JArr a xs) = ''object''"
| "typeof (JObj a ps) = ''object''"

text \<open>Truthiness, as \<^verbatim>\<open>if (v)\<close>, \<^verbatim>\<open>!v\<close>, \<^verbatim>\<open>v || d\<close> and \<^verbatim>\<open>v && w\<close> read it.\<close>

fun truthy :: "jsval \<Rightarrow> bool" where
  "truthy JUndefined = False"
| "truthy JNull = False"
| "truthy (JBool b) = b"
| "truthy (JNum n) = (n \<noteq> 0)"
| "truthy (JStr s) = (s \<noteq> [])"
| "truthy (JFun f) = True"
| "truthy (JArr a xs) = True"
| "truthy (JObj a ps) = True"

text \<open>\<^verbatim>\<open>v === w\<close>: primitives by value, the rest by address.\<close>

fun strict_eq :: "jsval \<Rightarrow> jsval \<Rightarrow> bool" where
  "strict_eq (JFun f) (JFun g) = (f = g)"
| "strict_eq (JArr a xs) (JArr b ys) = (a = b)"
| "strict_eq (JObj a ps) (JObj b qs) = (a = b)"
| "strict_eq (JFun f) w = False"
| "strict_eq (JArr a xs) w = False"
| "strict_eq (JObj a ps) w = False"
| "strict_eq v (JFun g) = False"
| "strict_eq v (JArr b ys) = False"
| "strict_eq v (JObj b qs) = False"
| "strict_eq v w = (v = w)"

text \<open>
  \<^verbatim>\<open>v.key\<close> on a value that is neither undefined nor null (reading a property of those
  throws; the callers below write that branch out). It is used with the option names of
  this file only (port, host, listen, logger, ...), none of which an array, a function,
  a primitive or \<^verbatim>\<open>Object.prototype\<close> has.
\<close>

fun get_prop :: "jsval \<Rightarrow> string \<Rightarrow> jsval" where
  "get_prop (JObj a ps) key = (case map_of ps key of Some v \<Rightarrow> v | None \<Rightarrow> JUndefined)"
| "get_prop v key = JUndefined"

text \<open>\<^verbatim>\<open>options.hasOwnProperty(key)\<close>, for the same keys.\<close>

fun hasOwnProperty :: "jsval \<Rightarrow> string \<Rightarrow> bool" where
  "hasOwnProperty (JObj a ps) key = (map_of ps key \<noteq> None)"
| "hasOwnProperty v key = False"

text \<open>Decimal notation, as string concatenation and array indices use it.\<close>

fun show_nat :: "nat \<Rightarrow> string" where
  "show_nat n =
     (if n < 10 then [''0123456789'' ! n]
      else show_nat (n div 10) @ [''0123456789'' ! (n mod 10)])"

declare show_nat.simps [simp del]

definition show_int :: "int \<Rightarrow> string" where
  "show_int i = (if i < 0 then CHR ''-'' # show_nat (nat (- i)) else show_nat (nat i))"

text \<open>The own enumerable properties \<^verbatim>\<open>Object.assign\<close> copies from a source.\<close>

fun own_props :: "jsval \<Rightarrow> (string \<times> jsval) list" where
  "own_props (JObj a ps) = ps"
| "own_props (JArr a xs) = zip (map show_nat [0..<length xs]) xs"
| "own_props (JStr s) = zip (map show_nat [0..<length s]) (map (\<lambda>c. JStr [c]) s)"
| "own_props v = []"

text \<open>
  \<^verbatim>\<open>Object.assign(target, source)\<close> on the properties of the target: a key the target has
  keeps its place and takes the new value, a new key is added at the end.
\<close>

definition object_assign :: "(string \<times> jsval) list \<Rightarrow> jsval \<Rightarrow> (string \<times> jsval) list" where
  "object_assign target source = fold (\<lambda>(k, v). AList.update k v) (own_props source) target"

definition wrap32 :: "int \<Rightarrow> int" where
  "wrap32 n = (n + 2 ^ 31) mod 2 ^ 32 - 2 ^ 31"

section \<open>The collaborators\<close>

text \<open>
  \<^verbatim>\<open>Endpoint\<close> (\<^verbatim>\<open>./endpoint\<close>), the associations it creates and the \<^verbatim>\<open>ip\<close> package are
  outside this file. An endpoint and an association are known by their identity and the
  fields the socket reads.
\<close>

record endpoint =
  ep_id :: nat
  ep_localPort :: jsval
  ep_localAddress :: jsval

record association =
  as_id :: nat
  as_remotePort :: jsval
  as_remoteAddress :: jsval

record init_options =
  io_MIS :: jsval
  io_OS :: jsval
  io_localAddress :: "jsval list option"
  io_localPort :: "int option"

record assoc_options =
  ao_streams :: int
  ao_remotePort :: int
  ao_remoteAddress :: jsval

datatype exn = Error string | TypeError string

type_synonym callback = nat

text \<open>
  What the collaborators and the runtime answer. \<open>ToNumber\<close> is the runtime's conversion
  of a string, function, array or object to a number (given as the integer it truncates
  to); \<open>INITIALIZE\<close> yields no endpoint when the port cannot be allocated; \<open>ABORT\<close> may
  throw. The other calls (\<^verbatim>\<open>SEND\<close>, \<^verbatim>\<open>SHUTDOWN\<close>, \<^verbatim>\<open>DESTROY\<close>, \<^verbatim>\<open>on\<close>, the logger, the
  application's listeners and callbacks) are taken to return normally.
\<close>

record env =
  ToNumber :: "jsval \<Rightarrow> int"
  isV4Format :: "jsval \<Rightarrow> bool"
  INITIALIZE :: "init_options \<Rightarrow> bool \<Rightarrow> endpoint option"
  ASSOCIATE :: "endpoint \<Rightarrow> assoc_options \<Rightarrow> association"
  RECEIVE :: "association \<Rightarrow> jsval \<Rightarrow> jsval"
  ABORT :: "association \<Rightarrow> jsval \<Rightarrow> exn option"

text \<open>The double bitwise not \<^verbatim>\<open>~~v\<close>: conversion to a signed 32-bit integer.\<close>

fun ToInt32 :: "env \<Rightarrow> jsval \<Rightarrow> int" where
  "ToInt32 env JUndefined = 0"
| "ToInt32 env JNull = 0"
| "ToInt32 env (JBool b) = (if b then 1 else 0)"
| "ToInt32 env (JNum n) = wrap32 n"
| "ToInt32 env v = wrap32 (ToNumber env v)"

section \<open>The socket\<close>

text \<open>
  The fields of a \<^verbatim>\<open>Socket\<close>. A field the code has not assigned yet is \<open>JUndefined\<close>,
  \<open>None\<close> or \<open>False\<close>. \<open>logger\<close> says whether a logger with a \<^verbatim>\<open>log\<close> function was given;
  \<open>port\<close> and \<open>host\<close> are the expected peer of passive mode, which only the application
  sets; \<open>listeners\<close> are the listeners registered on the socket itself. The last two
  fields record the handlers the socket has registered on its collaborators: the
  endpoints carrying the passive-mode handler, and one pair per call of
  \<^verbatim>\<open>_construct\<close> that had an association, for the five handlers on that
  association, which close over that endpoint.
\<close>

record socket =
  logger :: bool
  writeBuffer :: "jsval list"
  sctp_sndrcvinfo :: "(string \<times> jsval) list"
  p2p :: bool
  port :: jsval
  host :: jsval
  listeners :: "(string \<times> jsval) list"
  destroyed :: jsval
  connecting :: jsval
  bufferSize :: jsval
  bytesRead :: jsval
  bytesWritten :: jsval
  priv_endpoint :: "endpoint option"
  localPort :: jsval
  localAddress :: jsval
  priv_association :: "association option"
  remotePort :: jsval
  remoteAddress :: jsval
  remoteFamily :: jsval
  endpoint_handlers :: "endpoint list"
  association_handlers :: "(endpoint \<times> association) list"

text \<open>
  What a call does besides changing the socket: the calls it makes on the logger, the
  endpoint, the association, the stream and the callbacks, in order. \<open>Log\<close> keeps the
  level and the message, not the values logged with it.
\<close>

datatype action =
    Log string string
  | Emit string "exn option"
  | On string jsval
  | Push jsval
  | Callback callback "exn option"
  | EndpointInitialize init_options
  | EndpointOn endpoint string
  | EndpointAssociate endpoint assoc_options
  | EndpointDestroy endpoint
  | EndpointSet endpoint string jsval
  | AssocOn association string
  | AssocSend association jsval "(string \<times> jsval) list" callback
  | AssocReceive association jsval
  | AssocShutdown association callback
  | AssocAbort association jsval
  | AssocSet association string jsval

text \<open>
  The outcome of a call: the socket as the call leaves it, what it did, and the
  exception it throws, if any. A throw keeps the assignments made before it.
\<close>

record result =
  state :: socket
  trace :: "action list"
  thrown :: "exn option"

definition returns :: "socket \<Rightarrow> action list \<Rightarrow> result" where
  "returns s t = \<lparr>state = s, trace = t, thrown = None\<rparr>"

definition throws :: "socket \<Rightarrow> action list \<Rightarrow> exn \<Rightarrow> result" where
  "throws s t e = \<lparr>state = s, trace = t, thrown = Some e\<rparr>"

text \<open>\<open>after t r\<close>: the outcome \<open>r\<close> of the rest of a body that has already done \<open>t\<close>.\<close>

definition after :: "action list \<Rightarrow> result \<Rightarrow> result" where
  "after t r = r\<lparr>trace := t @ trace r\<rparr>"

text \<open>
  \<open>seq r f\<close>: one statement after another. The rest of the body \<open>f\<close> runs on the socket
  as \<open>r\<close> left it, unless \<open>r\<close> threw.
\<close>

definition seq :: "result \<Rightarrow> (socket \<Rightarrow> result) \<Rightarrow> result" where
  "seq r f = (case thrown r of Some e \<Rightarrow> r | None \<Rightarrow> after (trace r) (f (state r)))"

definition log :: "socket \<Rightarrow> string \<Rightarrow> string \<Rightarrow> action list" where
  "log s level msg = (if logger s then [Log level msg] else [])"

text \<open>
  \<^verbatim>\<open>this.emit(event, error)\<close>. Node's emitter throws on an \<^verbatim>\<open>'error'\<close> event that has
  no listener: the error given, or its own error when none is given.
\<close>

definition emit :: "socket \<Rightarrow> string \<Rightarrow> exn option \<Rightarrow> result" where
  "emit s event arg =
     (if event = ''error'' \<and> map_of (listeners s) ''error'' = None
      then throws s [Emit event arg]
             (case arg of Some e \<Rightarrow> e | None \<Rightarrow> Error ''Unhandled error. (undefined)'')
      else returns s [Emit event arg])"

text \<open>\<^verbatim>\<open>this.on(event, listener)\<close>.\<close>

definition on :: "socket \<Rightarrow> string \<Rightarrow> jsval \<Rightarrow> result" where
  "on s event listener =
     returns (s\<lparr>listeners := listeners s @ [(event, listener)]\<rparr>) [On event listener]"

text \<open>The constructor.\<close>

definition new_socket :: "jsval \<Rightarrow> result" where
  "new_socket options0 =
     (let options = (if truthy options0 then options0 else JObj 0 []);
          lg = get_prop options ''logger'';
          s = \<lparr>logger = (truthy lg \<and> typeof (get_prop lg ''log'') = ''function''),
               writeBuffer = [],
               sctp_sndrcvinfo = [(''protocol'', get_prop options ''protocol'')],
               p2p = False, port = JUndefined, host = JUndefined, listeners = [],
               destroyed = JUndefined, connecting = JUndefined,
               bufferSize = JUndefined, bytesRead = JUndefined, bytesWritten = JUndefined,
               priv_endpoint = None, localPort = JUndefined, localAddress = JUndefined,
               priv_association = None, remotePort = JUndefined, remoteAddress = JUndefined,
               remoteFamily = JUndefined,
               endpoint_handlers = [], association_handlers = []\<rparr>
      in returns s (log s ''debug'' ''start SCTP socket''))"

section \<open>Connecting\<close>

text \<open>The inner function \<^verbatim>\<open>multi\<close> of \<^verbatim>\<open>connect\<close>.\<close>

definition multi :: "env \<Rightarrow> jsval \<Rightarrow> jsval list" where
  "multi env address =
     (let addresses = (case address of JArr a xs \<Rightarrow> xs | _ \<Rightarrow> [address])
      in filter (isV4Format env) addresses)"

text \<open>
  \<^verbatim>\<open>_construct(endpoint, association)\<close>: binds the socket and registers the five
  handlers on the association. \<^verbatim>\<open>connect\<close> and its passive-mode handler call it with
  both arguments. The stream runtime of Node 15 and later calls it too, once after the
  constructor, with its own callback as the only argument: the callback then stands in
  the endpoint's place (an object known by its identity, whose \<^verbatim>\<open>localPort\<close> and
  \<^verbatim>\<open>localAddress\<close> read undefined) and the association is absent. With no association
  the read of \<^verbatim>\<open>association.remotePort\<close> throws, after \<^verbatim>\<open>this._association\<close> has been
  assigned.
\<close>

definition priv_construct :: "socket \<Rightarrow> endpoint \<Rightarrow> association option \<Rightarrow> result" where
  "priv_construct s endpoint association =
     (let s1 = s\<lparr>destroyed := JBool False,
                  connecting := JBool False,
                  bufferSize := JNum 0,
                  bytesRead := JNum 0,
                  bytesWritten := JNum 0,
                  priv_endpoint := Some endpoint,
                  localPort := ep_localPort endpoint,
                  localAddress := ep_localAddress endpoint,
                  priv_association := association\<rparr>
      in case association of
           None \<Rightarrow> throws s1 [] (TypeError ''association.remotePort'')
         | Some a \<Rightarrow>
             returns
               (s1\<lparr>remotePort := as_remotePort a,
                   remoteAddress := as_remoteAddress a,
                   remoteFamily := JStr ''IPv4'',
                   association_handlers := association_handlers s @ [(endpoint, a)]\<rparr>)
               [AssocOn a ''COMMUNICATION UP'',
                AssocOn a ''DATA ARRIVE'',
                AssocOn a ''SHUTDOWN COMPLETE'',
                AssocOn a ''COMMUNICATION LOST'',
                AssocOn a ''COMMUNICATION ERROR''])"

text \<open>The object \<^verbatim>\<open>assocOptions\<close> that \<^verbatim>\<open>connect\<close> builds from its options.\<close>

definition assoc_options_of :: "env \<Rightarrow> jsval \<Rightarrow> assoc_options" where
  "assoc_options_of env options =
     \<lparr>ao_streams = 1,
      ao_remotePort = ToInt32 env (get_prop options ''port''),
      ao_remoteAddress =
        (if truthy (get_prop options ''host'') then get_prop options ''host''
         else JStr ''127.0.0.1'')\<rparr>"

text \<open>The object \<^verbatim>\<open>initOptions\<close>; a property that is not assigned is \<open>None\<close>.\<close>

definition init_options_of :: "env \<Rightarrow> jsval \<Rightarrow> init_options" where
  "init_options_of env options =
     \<lparr>io_MIS = get_prop options ''MIS'',
      io_OS = get_prop options ''OS'',
      io_localAddress =
        (if truthy (get_prop options ''localAddress'')
         then Some (multi env (get_prop options ''localAddress'')) else None),
      io_localPort =
        (if truthy (get_prop options ''localPort'') \<and>
            ToInt32 env (get_prop options ''localPort'') \<noteq> 0
         then Some (ToInt32 env (get_prop options ''localPort'')) else None)\<rparr>"

text \<open>
  The string \<^verbatim>\<open>'unable to allocate port ' + initOptions.localPort\<close>; the property is
  undefined when no local port was asked for.
\<close>

definition unable_to_allocate :: "init_options \<Rightarrow> string" where
  "unable_to_allocate initOptions =
     ''unable to allocate port '' @
       (case io_localPort initOptions of None \<Rightarrow> ''undefined'' | Some n \<Rightarrow> show_int n)"

text \<open>
  The second half of \<^verbatim>\<open>connect\<close>, from the test of the endpoint that
  \<^verbatim>\<open>Endpoint.INITIALIZE\<close> gave. A \<open>TypeError\<close> names the property whose read failed on
  undefined or null.
\<close>

definition connect_endpoint ::
    "env \<Rightarrow> socket \<Rightarrow> jsval \<Rightarrow> jsval \<Rightarrow> assoc_options \<Rightarrow> init_options \<Rightarrow>
     endpoint option \<Rightarrow> result" where
  "connect_endpoint env s options connectListener assocOptions initOptions endpoint =
     seq (case endpoint of
            None \<Rightarrow> emit s ''error'' (Some (Error (unable_to_allocate initOptions)))
          | Some ep \<Rightarrow> returns s [])
       (\<lambda>s. seq (if typeof connectListener = ''function''
                 then on s ''connect'' connectListener else returns s [])
          (\<lambda>s. if truthy (get_prop options ''listen'') then
                 (case endpoint of
                    None \<Rightarrow> throws s [] (TypeError ''endpoint.on'')
                  | Some ep \<Rightarrow>
                      returns (s\<lparr>endpoint_handlers := endpoint_handlers s @ [ep]\<rparr>)
                        [EndpointOn ep ''COMMUNICATION UP''])
               else
                 (case endpoint of
                    None \<Rightarrow> throws s [] (TypeError ''endpoint.ASSOCIATE'')
                  | Some ep \<Rightarrow>
                      after [EndpointAssociate ep assocOptions]
                        (priv_construct s ep (Some (ASSOCIATE env ep assocOptions))))))"

text \<open>\<^verbatim>\<open>connect(options, connectListener)\<close>.\<close>

definition connect :: "env \<Rightarrow> socket \<Rightarrow> jsval \<Rightarrow> jsval \<Rightarrow> result" where
  "connect env s options connectListener =
     (if p2p s then returns s []
      else
        let s1 = s\<lparr>p2p := True\<rparr> in
        if typeof options \<noteq> ''object'' then throws s1 [] (Error ''options required'')
        else
          let t1 = log s1 ''debug'' ''connect'' in
          if options = JNull then throws s1 t1 (TypeError ''options.port'')
          else
            let assocOptions = assoc_options_of env options in
            if ao_remotePort assocOptions = 0 then throws s1 t1 (Error ''port is required'')
            else
              let initOptions = init_options_of env options;
                  t2 = t1 @ log s1 ''debug'' ''init & assoc options'';
                  endpoint = INITIALIZE env initOptions (logger s1)
              in after (t2 @ [EndpointInitialize initOptions])
                   (connect_endpoint env s1 options connectListener assocOptions initOptions
                      endpoint))"

text \<open>
  The handler \<^verbatim>\<open>connect\<close> registers on the endpoint in passive mode, run for an inbound
  association; \<open>endpoint\<close> is the one the handler closes over.
\<close>

definition on_endpoint_communication_up ::
    "env \<Rightarrow> socket \<Rightarrow> endpoint \<Rightarrow> association \<Rightarrow> result" where
  "on_endpoint_communication_up env s endpoint association =
     (if strict_eq (as_remotePort association) (port s) \<and>
         strict_eq (as_remoteAddress association) (host s)
      then
        after (log s ''trace'' ''remote peer2peer socket connected'')
          (seq (priv_construct s endpoint (Some association)) (\<lambda>s. emit s ''connect'' None))
      else
        after (log s ''warn'' ''remote peer2peer socket rejected port'' @
               [AssocAbort association JUndefined])
          (case ABORT env association JUndefined of
             None \<Rightarrow> returns s []
           | Some e \<Rightarrow> throws s [] e))"

section \<open>The handlers on the association\<close>

datatype assoc_event =
    COMMUNICATION_UP
  | DATA_ARRIVE jsval
  | SHUTDOWN_COMPLETE
  | COMMUNICATION_LOST jsval jsval
  | COMMUNICATION_ERROR

text \<open>
  The five handlers of \<^verbatim>\<open>_construct\<close>, by event; \<open>endpoint\<close> and \<open>association\<close> are the
  arguments of the call of \<^verbatim>\<open>_construct\<close> that registered them.
\<close>

fun on_association ::
    "env \<Rightarrow> socket \<Rightarrow> endpoint \<times> association \<Rightarrow> assoc_event \<Rightarrow> result" where
  "on_association env s (endpoint, association) COMMUNICATION_UP =
     seq (emit s ''connect'' None) (\<lambda>s. returns s (log s ''info'' ''socket connected''))"
| "on_association env s (endpoint, association) (DATA_ARRIVE stream_id) =
     (let buffer = RECEIVE env association stream_id
      in after [AssocReceive association stream_id]
           (if truthy buffer
            then returns s (log s ''debug'' ''< DATA ARRIVE'' @ [Push buffer])
            else returns s []))"
| "on_association env s (endpoint, association) SHUTDOWN_COMPLETE =
     after (log s ''debug'' ''socket ended'' @
            (if p2p s then [EndpointDestroy endpoint] else []))
       (emit s ''end'' None)"
| "on_association env s (endpoint, association) (COMMUNICATION_LOST event reason) =
     after (log s ''info'' ''COMMUNICATION LOST'' @
            (if p2p s then [EndpointDestroy endpoint] else []))
       (emit s ''close'' None)"
| "on_association env s (endpoint, association) COMMUNICATION_ERROR =
     emit s ''error'' None"

section \<open>The stream's methods and the parameters\<close>

text \<open>\<^verbatim>\<open>address()\<close>: port, address and family.\<close>

definition address :: "socket \<Rightarrow> jsval \<times> jsval \<times> string" where
  "address s = (localPort s, localAddress s, ''IPv4'')"

definition priv_final :: "socket \<Rightarrow> callback \<Rightarrow> result" where
  "priv_final s callback =
     (case priv_association s of
        Some a \<Rightarrow> returns s [AssocShutdown a callback]
      | None \<Rightarrow> returns s [])"

text \<open>The loop over \<^verbatim>\<open>params\<close> in the two filtered setters.\<close>

definition copy_params ::
    "(string \<Rightarrow> jsval \<Rightarrow> action) \<Rightarrow> string list \<Rightarrow> jsval \<Rightarrow> action list" where
  "copy_params set_key params options =
     concat (map (\<lambda>key. if hasOwnProperty options key
                         then [set_key key (get_prop options key)] else []) params)"

definition SCTP_ASSOCINFO :: "socket \<Rightarrow> jsval \<Rightarrow> result" where
  "SCTP_ASSOCINFO s options =
     (case priv_endpoint s of
        Some endpoint \<Rightarrow>
          if typeof options = ''object'' then
            (if options = JNull then throws s [] (TypeError ''options.hasOwnProperty'')
             else returns s (copy_params (EndpointSet endpoint) [''valid_cookie_life''] options))
          else returns s []
      | None \<Rightarrow> returns s [])"

definition SCTP_DEFAULT_SEND_PARAM :: "socket \<Rightarrow> jsval \<Rightarrow> result" where
  "SCTP_DEFAULT_SEND_PARAM s options =
     returns (s\<lparr>sctp_sndrcvinfo := object_assign (sctp_sndrcvinfo s) options\<rparr>) []"

definition SCTP_PEER_ADDR_PARAMS :: "socket \<Rightarrow> jsval \<Rightarrow> result" where
  "SCTP_PEER_ADDR_PARAMS s options =
     (case priv_association s of
        Some association \<Rightarrow>
          if typeof options = ''object'' then
            (if options = JNull then throws s [] (TypeError ''options.hasOwnProperty'')
             else returns s
                    (copy_params (AssocSet association)
                       [''sack_timeout'', ''sack_freq'', ''hb_interval''] options))
          else returns s []
      | None \<Rightarrow> returns s [])"

definition priv_read :: "socket \<Rightarrow> jsval \<Rightarrow> result" where
  "priv_read s size' = returns s []"

text \<open>
  \<^verbatim>\<open>_write(chunk, options, callback)\<close>. The association is handed the object
  \<^verbatim>\<open>this.sctp_sndrcvinfo\<close> itself; the action records its properties at the call.
\<close>

definition priv_write :: "socket \<Rightarrow> jsval \<Rightarrow> jsval \<Rightarrow> callback \<Rightarrow> result" where
  "priv_write s chunk options callback =
     after (log s ''debug'' ''> write'')
       (case priv_association s of
          Some association \<Rightarrow>
            returns s [AssocSend association chunk (sctp_sndrcvinfo s) callback]
        | None \<Rightarrow>
            returns s [Callback callback (Some (Error ''no association established''))])"

definition priv_destroy :: "env \<Rightarrow> socket \<Rightarrow> jsval \<Rightarrow> callback \<Rightarrow> result" where
  "priv_destroy env s err callback =
     after (log s ''fatal'' ''destroy'')
       (case priv_association s of
          None \<Rightarrow> throws s [] (TypeError ''this._association.ABORT'')
        | Some association \<Rightarrow>
            after [AssocAbort association err]
              (case ABORT env association err of
                 Some e \<Rightarrow> throws s [] e
               | None \<Rightarrow> returns s [Callback callback None]))"

section \<open>Calls and events in sequence\<close>

text \<open>
  Running the handlers registered for an event, in the order of registration; a handler
  that throws ends the delivery.
\<close>

fun run_handlers :: "(socket \<Rightarrow> 'h \<Rightarrow> result) \<Rightarrow> 'h list \<Rightarrow> socket \<Rightarrow> result" where
  "run_handlers handler [] s = returns s []"
| "run_handlers handler (h # hs) s = seq (handler s h) (run_handlers handler hs)"

text \<open>
  Everything that can happen to a socket: a call of one of its methods, the endpoint
  announcing an inbound association, or an association emitting an event. A call of
  \<^verbatim>\<open>_construct\<close> from outside always gives the first argument (the runtime its callback)
  and may leave out the association.
\<close>

datatype call =
    Call_address
  | Call_connect jsval jsval
  | Call_final callback
  | Call_SCTP_ASSOCINFO jsval
  | Call_SCTP_DEFAULT_SEND_PARAM jsval
  | Call_SCTP_PEER_ADDR_PARAMS jsval
  | Call_read jsval
  | Call_write jsval jsval callback
  | Call_destroy jsval callback
  | Call_construct endpoint "association option"
  | Endpoint_emits endpoint association
  | Association_emits association assoc_event

fun step :: "env \<Rightarrow> socket \<Rightarrow> call \<Rightarrow> result" where
  "step env s Call_address = returns s []"
| "step env s (Call_connect options connectListener) = connect env s options connectListener"
| "step env s (Call_final callback) = priv_final s callback"
| "step env s (Call_SCTP_ASSOCINFO options) = SCTP_ASSOCINFO s options"
| "step env s (Call_SCTP_DEFAULT_SEND_PARAM options) = SCTP_DEFAULT_SEND_PARAM s options"
| "step env s (Call_SCTP_PEER_ADDR_PARAMS options) = SCTP_PEER_ADDR_PARAMS s options"
| "step env s (Call_read size') = priv_read s size'"
| "step env s (Call_write chunk options callback) = priv_write s chunk options callback"
| "step env s (Call_destroy err callback) = priv_destroy env s err callback"
| "step env s (Call_construct endpoint association) = priv_construct s endpoint association"
| "step env s (Endpoint_emits endpoint association) =
     run_handlers (\<lambda>s' ep. on_endpoint_communication_up env s' ep association)
       (filter (\<lambda>ep. ep = endpoint) (endpoint_handlers s)) s"
| "step env s (Association_emits association event) =
     run_handlers (\<lambda>s' h. on_association env s' h event)
       (filter (\<lambda>h. snd h = association) (association_handlers s)) s"

text \<open>A sequence of calls and events; one that throws does not stop the later ones.\<close>

fun run :: "env \<Rightarrow> socket \<Rightarrow> call list \<Rightarrow> socket \<times> action list" where
  "run env s [] = (s, [])"
| "run env s (c # cs) =
     (let r = step env s c;
          (s', t) = run env (state r) cs
      in (s', trace r @ t))"

section \<open>Observations and sample values\<close>

text \<open>The kinds of action the properties below count in a trace.\<close>

fun is_send :: "action \<Rightarrow> bool" where
  "is_send (AssocSend a chunk info cb) = True"
| "is_send x = False"

fun is_callback :: "action \<Rightarrow> bool" where
  "is_callback (Callback cb e) = True"
| "is_callback x = False"

fun is_abort :: "action \<Rightarrow> bool" where
  "is_abort (AssocAbort a err) = True"
| "is_abort x = False"

fun is_emit :: "action \<Rightarrow> bool" where
  "is_emit (Emit event arg) = True"
| "is_emit x = False"

fun is_initialize :: "action \<Rightarrow> bool" where
  "is_initialize (EndpointInitialize io) = True"
| "is_initialize x = False"

text \<open>
  The calls and events that can give the socket another association: a call of
  \<^verbatim>\<open>_construct\<close> and the endpoint announcing an inbound association.
\<close>

fun rebinding :: "call \<Rightarrow> bool" where
  "rebinding (Call_construct endpoint association) = True"
| "rebinding (Endpoint_emits endpoint association) = True"
| "rebinding c = False"

text \<open>
  Modelled from the spec: the operation \<^verbatim>\<open>SHUTDOWN(callback)\<close> of the association, whose
  code is not among the sources. The spec gives it as the shutdown operation with a
  completion callback (sections 1, 4.3 and 6) and says that no timeout is built in: a
  stalled association leaves the socket closing indefinitely (section 5). So the
  callback is called when the shutdown completes, and never when the association
  stalls; \<open>completes\<close> says which associations complete their shutdown.
\<close>

definition SHUTDOWN :: "(association \<Rightarrow> bool) \<Rightarrow> association \<Rightarrow> callback \<Rightarrow> action list" where
  "SHUTDOWN completes a callback = (if completes a then [Callback callback None] else [])"

text \<open>
  The calls of callbacks that an action leads to: the call itself, and for a call of
  \<^verbatim>\<open>SHUTDOWN\<close> those the association makes.
\<close>

fun callbacks_of :: "(association \<Rightarrow> bool) \<Rightarrow> action \<Rightarrow> action list" where
  "callbacks_of completes (AssocShutdown a callback) = SHUTDOWN completes a callback"
| "callbacks_of completes (Callback callback e) = [Callback callback e]"
| "callbacks_of completes x = []"

text \<open>Associations that all complete their shutdown, and associations that all stall.\<close>

definition always_completes :: "association \<Rightarrow> bool" where
  "always_completes a = True"

definition never_completes :: "association \<Rightarrow> bool" where
  "never_completes a = False"

text \<open>The three counters of a bound socket.\<close>

definition counters_zero :: "socket \<Rightarrow> bool" where
  "counters_zero s = (bufferSize s = JNum 0 \<and> bytesRead s = JNum 0 \<and> bytesWritten s = JNum 0)"

text \<open>The test of the passive-mode handler: the association comes from the expected peer.\<close>

definition expected_peer :: "socket \<Rightarrow> association \<Rightarrow> bool" where
  "expected_peer s a =
     (strict_eq (as_remotePort a) (port s) \<and> strict_eq (as_remoteAddress a) (host s))"

text \<open>
  A socket is wired when the association it holds, if any, carries the five handlers of
  \<^verbatim>\<open>_construct\<close>, closed over the endpoint it holds. Every socket the constructor and
  the calls above produce is wired (\<open>wired_new\<close>, \<open>wired_run\<close> below).
\<close>

definition wired :: "socket \<Rightarrow> bool" where
  "wired s =
     (case priv_association s of
        None \<Rightarrow> True
      | Some a \<Rightarrow>
          (case priv_endpoint s of
             None \<Rightarrow> False
           | Some ep \<Rightarrow> (ep, a) \<in> set (association_handlers s)))"

text \<open>
  Collaborators and sockets for the examples: an environment in which every call
  succeeds, one whose \<^verbatim>\<open>ABORT\<close> throws, one that cannot allocate a port; a fresh socket,
  one with an \<^verbatim>\<open>'error'\<close> listener, one connected actively, one listening for the peer
  10.0.0.1:5000, and the latter after that peer has come in.
\<close>

definition sample_endpoint :: "init_options \<Rightarrow> endpoint" where
  "sample_endpoint io =
     \<lparr>ep_id = 1,
      ep_localPort = (case io_localPort io of Some n \<Rightarrow> JNum n | None \<Rightarrow> JNum 49152),
      ep_localAddress = JStr ''0.0.0.0''\<rparr>"

definition sample_association :: "assoc_options \<Rightarrow> association" where
  "sample_association ao =
     \<lparr>as_id = 1, as_remotePort = JNum (ao_remotePort ao), as_remoteAddress = ao_remoteAddress ao\<rparr>"

definition sample_env :: env where
  "sample_env =
     \<lparr>ToNumber = (\<lambda>v. 0),
      isV4Format = (\<lambda>v. True),
      INITIALIZE = (\<lambda>io lg. Some (sample_endpoint io)),
      ASSOCIATE = (\<lambda>ep ao. sample_association ao),
      RECEIVE = (\<lambda>a stream_id. JNull),
      ABORT = (\<lambda>a err. None)\<rparr>"

definition failing_abort_env :: env where
  "failing_abort_env = sample_env\<lparr>ABORT := (\<lambda>a err. Some (Error ''abort failed''))\<rparr>"

definition no_port_env :: env where
  "no_port_env = sample_env\<lparr>INITIALIZE := (\<lambda>io lg. None)\<rparr>"

definition sample_socket :: socket where
  "sample_socket = state (new_socket JUndefined)"

definition watched_socket :: socket where
  "watched_socket = sample_socket\<lparr>listeners := [(''error'', JFun 9)]\<rparr>"

definition sample_options :: jsval where
  "sample_options = JObj 1 [(''port'', JNum 5000)]"

definition listen_options :: jsval where
  "listen_options = JObj 2 [(''port'', JNum 5000), (''listen'', JBool True)]"

definition local_port_options :: jsval where
  "local_port_options = JObj 3 [(''port'', JNum 5000), (''localPort'', JNum 6000)]"

definition protocol_options :: jsval where
  "protocol_options = JObj 4 [(''protocol'', JNum 7)]"

definition active_socket :: socket where
  "active_socket = state (connect sample_env sample_socket sample_options JUndefined)"

definition active_endpoint :: endpoint where
  "active_endpoint = sample_endpoint (init_options_of sample_env sample_options)"

definition active_peer :: association where
  "active_peer = sample_association (assoc_options_of sample_env sample_options)"

definition passive_socket :: socket where
  "passive_socket =
     state (connect sample_env (sample_socket\<lparr>port := JNum 5000, host := JStr ''10.0.0.1''\<rparr>)
              listen_options JUndefined)"

definition listening_endpoint :: endpoint where
  "listening_endpoint = sample_endpoint (init_options_of sample_env listen_options)"

definition peer1 :: association where
  "peer1 = \<lparr>as_id = 1, as_remotePort = JNum 5000, as_remoteAddress = JStr ''10.0.0.1''\<rparr>"

definition peer2 :: association where
  "peer2 = \<lparr>as_id = 2, as_remotePort = JNum 5000, as_remoteAddress = JStr ''10.0.0.1''\<rparr>"

definition stranger :: association where
  "stranger = \<lparr>as_id = 3, as_remotePort = JNum 6000, as_remoteAddress = JStr ''10.0.0.1''\<rparr>"

definition accepted_socket :: socket where
  "accepted_socket =
     state (step sample_env passive_socket (Endpoint_emits listening_endpoint peer1))"

section \<open>Outcomes and sequencing\<close>

lemma result_returns [simp]:
  "state (returns s t) = s" "trace (returns s t) = t" "thrown (returns s t) = None"
  by (simp_all add: returns_def)

lemma result_throws [simp]:
  "state (throws s t e) = s" "trace (throws s t e) = t" "thrown (throws s t e) = Some e"
  by (simp_all add: throws_def)

lemma result_after [simp]:
  "state (after t r) = state r" "trace (after t r) = t @ trace r" "thrown (after t r) = thrown r"
  by (simp_all add: after_def)

lemma after_outcome [simp]:
  "after t (returns s u) = returns s (t @ u)" "after t (throws s u e) = throws s (t @ u) e"
  by (simp_all add: after_def returns_def throws_def)

lemma seq_outcome [simp]:
  "seq (returns s t) f = after t (f s)" "seq (throws s t e) f = throws s t e"
  by (simp_all add: seq_def)

lemma seq_returns_right [simp]: "seq r (\<lambda>s. returns s []) = r"
  by (cases "thrown r") (simp_all add: seq_def after_def returns_def)

lemma result_emit [simp]:
  "state (emit s event arg) = s" "trace (emit s event arg) = [Emit event arg]"
  by (simp_all add: emit_def)

lemma emit_other [simp]: "event \<noteq> ''error'' \<Longrightarrow> emit s event arg = returns s [Emit event arg]"
  by (simp add: emit_def)

lemma filter_log [simp]:
  "filter is_send (log s level msg) = []"
  "filter is_callback (log s level msg) = []"
  "filter is_abort (log s level msg) = []"
  "filter is_emit (log s level msg) = []"
  "filter is_initialize (log s level msg) = []"
  by (simp_all add: log_def)

lemma run_handlers_Nil [simp]: "run_handlers handler [] = (\<lambda>s. returns s [])"
  by (rule ext) simp

text \<open>The handlers of an event that neither throw nor change the socket all run.\<close>

lemma run_handlers_traces:
  assumes "\<And>s h. thrown (handler s h) = None" and "\<And>s h. state (handler s h) = s"
  shows "run_handlers handler hs s = returns s (concat (map (\<lambda>h. trace (handler s h)) hs))"
proof (induction hs)
  case Nil
  show ?case by simp
next
  case (Cons h hs)
  show ?case by (simp add: seq_def assms Cons.IH)
qed

section \<open>What every call keeps\<close>

text \<open>
  A property of the socket that survives the few assignments the code makes (the flag
  \<^verbatim>\<open>p2p\<close>, a listener, a handler on the endpoint, the default send parameters, a call of
  \<^verbatim>\<open>_construct\<close>) survives every call and every event.
\<close>

lemma seq_preserves:
  assumes "P (state r)" and "\<And>s'. P s' \<Longrightarrow> P (state (f s'))"
  shows "P (state (seq r f))"
  using assms by (cases "thrown r") (simp_all add: seq_def)

lemma run_handlers_preserves:
  assumes "\<And>s' h. P s' \<Longrightarrow> P (state (handler s' h))" and "P s"
  shows "P (state (run_handlers handler hs s))"
  using assms(2)
proof (induction hs arbitrary: s)
  case Nil
  then show ?case by simp
next
  case (Cons h hs)
  show ?case
    unfolding run_handlers.simps
    by (rule seq_preserves) (use Cons assms(1) in auto)
qed

lemma connect_endpoint_preserves:
  assumes lis: "\<And>s ls. P s \<Longrightarrow> P (s\<lparr>listeners := ls\<rparr>)"
    and eh: "\<And>s hs. P s \<Longrightarrow> P (s\<lparr>endpoint_handlers := hs\<rparr>)"
    and con: "\<And>s ep a. P s \<Longrightarrow> P (state (priv_construct s ep a))"
    and "P s"
  shows "P (state (connect_endpoint env s options listener ao io endpoint))"
  unfolding connect_endpoint_def
proof (rule seq_preserves, goal_cases)
  case 1
  show ?case using \<open>P s\<close> by (cases endpoint) simp_all
next
  case (2 s1)
  show ?case
  proof (rule seq_preserves, goal_cases)
    case 1
    show ?case using \<open>P s1\<close> lis by (simp add: on_def)
  next
    case (2 s2)
    then show ?case using eh con by (cases endpoint) simp_all
  qed
qed

lemma connect_preserves:
  assumes flag: "\<And>s. P s \<Longrightarrow> P (s\<lparr>p2p := True\<rparr>)"
    and lis: "\<And>s ls. P s \<Longrightarrow> P (s\<lparr>listeners := ls\<rparr>)"
    and eh: "\<And>s hs. P s \<Longrightarrow> P (s\<lparr>endpoint_handlers := hs\<rparr>)"
    and con: "\<And>s ep a. P s \<Longrightarrow> P (state (priv_construct s ep a))"
    and "P s"
  shows "P (state (connect env s options listener))"
proof -
  have "P (state (connect_endpoint env (s\<lparr>p2p := True\<rparr>) options listener ao io endpoint))"
    for ao io endpoint
    by (rule connect_endpoint_preserves [where P = P, OF lis eh con]) (use flag \<open>P s\<close> in auto)
  then show ?thesis
    using \<open>P s\<close> flag by (simp add: connect_def Let_def)
qed

lemma on_endpoint_communication_up_preserves:
  assumes con: "\<And>s ep a. P s \<Longrightarrow> P (state (priv_construct s ep a))" and "P s"
  shows "P (state (on_endpoint_communication_up env s ep a))"
  using assms by (simp add: on_endpoint_communication_up_def seq_def split: option.splits)

lemma state_on_association [simp]: "state (on_association env s h event) = s"
  by (cases h; cases event) (simp_all add: Let_def seq_def split: option.splits)

lemma step_preserves:
  assumes flag: "\<And>s. P s \<Longrightarrow> P (s\<lparr>p2p := True\<rparr>)"
    and lis: "\<And>s ls. P s \<Longrightarrow> P (s\<lparr>listeners := ls\<rparr>)"
    and eh: "\<And>s hs. P s \<Longrightarrow> P (s\<lparr>endpoint_handlers := hs\<rparr>)"
    and info: "\<And>s x. P s \<Longrightarrow> P (s\<lparr>sctp_sndrcvinfo := x\<rparr>)"
    and con: "\<And>s ep a. P s \<Longrightarrow> P (state (priv_construct s ep a))"
    and "P s"
  shows "P (state (step env s c))"
proof (cases c)
  case (Call_connect options listener)
  then show ?thesis
    using connect_preserves [where P = P, OF flag lis eh con \<open>P s\<close>] by simp
next
  case (Endpoint_emits ep a)
  then show ?thesis
    using \<open>P s\<close> con
    by (simp add: run_handlers_preserves on_endpoint_communication_up_preserves)
next
  case (Association_emits a event)
  then show ?thesis
    using \<open>P s\<close> by (simp add: run_handlers_preserves)
next
  case (Call_construct ep a)
  then show ?thesis
    using \<open>P s\<close> con by simp
qed (use \<open>P s\<close> info in \<open>simp_all add: priv_final_def SCTP_ASSOCINFO_def SCTP_DEFAULT_SEND_PARAM_def
      SCTP_PEER_ADDR_PARAMS_def priv_read_def priv_write_def priv_destroy_def
      split: option.splits\<close>)

lemma run_preserves:
  assumes flag: "\<And>s. P s \<Longrightarrow> P (s\<lparr>p2p := True\<rparr>)"
    and lis: "\<And>s ls. P s \<Longrightarrow> P (s\<lparr>listeners := ls\<rparr>)"
    and eh: "\<And>s hs. P s \<Longrightarrow> P (s\<lparr>endpoint_handlers := hs\<rparr>)"
    and info: "\<And>s x. P s \<Longrightarrow> P (s\<lparr>sctp_sndrcvinfo := x\<rparr>)"
    and con: "\<And>s ep a. P s \<Longrightarrow> P (state (priv_construct s ep a))"
    and "P s"
  shows "P (fst (run env s cs))"
  using \<open>P s\<close>
proof (induction cs arbitrary: s)
  case Nil
  then show ?case by simp
next
  case (Cons c cs)
  have "P (state (step env s c))"
    by (rule step_preserves [where P = P, OF flag lis eh info con Cons.prems])
  then have "P (fst (run env (state (step env s c)) cs))"
    by (rule Cons.IH)
  then show ?case by (simp add: Let_def case_prod_beta)
qed

lemma p2p_connect: "p2p (state (connect env s options listener))"
proof -
  have "p2p (state (connect_endpoint env (s\<lparr>p2p := True\<rparr>) options listener ao io endpoint))"
    for ao io endpoint
    by (rule connect_endpoint_preserves [where P = p2p])
      (simp_all add: priv_construct_def Let_def split: option.splits)
  then show ?thesis by (simp add: connect_def Let_def)
qed

lemma p2p_run: "p2p s \<Longrightarrow> p2p (fst (run env s cs))"
  by (rule run_preserves [where P = p2p])
    (simp_all add: priv_construct_def Let_def split: option.splits)

lemma wired_new: "wired (state (new_socket options))"
  by (simp add: new_socket_def Let_def wired_def)

lemma wired_run: "wired s \<Longrightarrow> wired (fst (run env s cs))"
  by (rule run_preserves [where P = wired])
    (simp_all add: wired_def priv_construct_def Let_def split: option.splits)

text \<open>Once \<^verbatim>\<open>connect\<close> has been called, the handlers on endpoints stay as they are.\<close>

lemma endpoint_handlers_step:
  assumes "p2p s"
  shows "endpoint_handlers (state (step env s c)) = endpoint_handlers s"
proof (cases c)
  case (Call_connect options listener)
  then show ?thesis using assms by (simp add: connect_def)
next
  case (Endpoint_emits ep a)
  have "endpoint_handlers
          (state (run_handlers (\<lambda>s' ep. on_endpoint_communication_up env s' ep a) hs s)) =
        endpoint_handlers s" for hs
    by (rule run_handlers_preserves [where P = "\<lambda>s'. endpoint_handlers s' = endpoint_handlers s"],
        rule on_endpoint_communication_up_preserves)
      (simp_all add: priv_construct_def Let_def split: option.splits)
  then show ?thesis using Endpoint_emits by simp
next
  case (Association_emits a event)
  have "endpoint_handlers (state (run_handlers (\<lambda>s' h. on_association env s' h event) hs s)) =
        endpoint_handlers s" for hs
    by (rule run_handlers_preserves [where P = "\<lambda>s'. endpoint_handlers s' = endpoint_handlers s"])
      simp_all
  then show ?thesis using Association_emits by simp
qed (simp_all add: priv_final_def SCTP_ASSOCINFO_def SCTP_DEFAULT_SEND_PARAM_def
      SCTP_PEER_ADDR_PARAMS_def priv_read_def priv_write_def priv_destroy_def
      priv_construct_def Let_def split: option.splits)

text \<open>
  Once \<^verbatim>\<open>connect\<close> has been called, only a call of \<^verbatim>\<open>_construct\<close> and an announcement
  of the endpoint can change the association the socket holds.
\<close>

lemma other_calls_keep_association:
  assumes "p2p s" and "\<not> rebinding c"
  shows "priv_association (state (step env s c)) = priv_association s"
proof (cases c)
  case (Call_connect options listener)
  then show ?thesis using assms(1) by (simp add: connect_def)
next
  case (Association_emits a event)
  have "priv_association (state (run_handlers (\<lambda>s' h. on_association env s' h event) hs s)) =
        priv_association s" for hs
    by (rule run_handlers_preserves [where P = "\<lambda>s'. priv_association s' = priv_association s"])
      simp_all
  then show ?thesis using Association_emits by simp
qed (use assms(2) in \<open>simp_all add: priv_final_def SCTP_ASSOCINFO_def SCTP_DEFAULT_SEND_PARAM_def
      SCTP_PEER_ADDR_PARAMS_def priv_read_def priv_write_def priv_destroy_def
      split: option.splits\<close>)

lemma endpoint_emits_elsewhere:
  "endpoint \<notin> set (endpoint_handlers s) \<Longrightarrow>
     step env s (Endpoint_emits endpoint a) = returns s []"
proof -
  assume "endpoint \<notin> set (endpoint_handlers s)"
  then have "filter (\<lambda>ep. ep = endpoint) (endpoint_handlers s) = []"
    by (auto simp add: filter_empty_conv)
  then show ?thesis by simp
qed

section \<open>The branches of connect\<close>

lemma connect_listen_registers:
  assumes "\<not> p2p s" "typeof options = ''object''" "options \<noteq> JNull"
    and "ToInt32 env (get_prop options ''port'') \<noteq> 0"
    and "truthy (get_prop options ''listen'')"
    and "INITIALIZE env (init_options_of env options) (logger s) = Some ep"
  shows "thrown (connect env s options listener) = None
     \<and> endpoint_handlers (state (connect env s options listener)) = endpoint_handlers s @ [ep]
     \<and> priv_association (state (connect env s options listener)) = priv_association s
     \<and> port (state (connect env s options listener)) = port s
     \<and> host (state (connect env s options listener)) = host s
     \<and> p2p (state (connect env s options listener))"
  using assms
  by (simp add: connect_def Let_def assoc_options_of_def connect_endpoint_def on_def)

lemma connect_active_binds:
  assumes "\<not> p2p s" "typeof options = ''object''" "options \<noteq> JNull"
    and "ToInt32 env (get_prop options ''port'') \<noteq> 0"
    and "\<not> truthy (get_prop options ''listen'')"
    and "INITIALIZE env (init_options_of env options) (logger s) = Some ep"
  shows "thrown (connect env s options listener) = None
     \<and> p2p (state (connect env s options listener))
     \<and> sctp_sndrcvinfo (state (connect env s options listener)) = sctp_sndrcvinfo s
     \<and> priv_endpoint (state (connect env s options listener)) = Some ep
     \<and> priv_association (state (connect env s options listener)) =
         Some (ASSOCIATE env ep (assoc_options_of env options))
     \<and> (ep, ASSOCIATE env ep (assoc_options_of env options)) \<in>
         set (association_handlers (state (connect env s options listener)))"
  using assms
  by (simp add: connect_def Let_def assoc_options_of_def connect_endpoint_def on_def
      priv_construct_def Let_def)

text \<open>
  Whenever no endpoint can be had, a first \<^verbatim>\<open>connect\<close> with a valid port emits the
  error and then throws: the emitter's own throw, or the read of a property of the
  missing endpoint.
\<close>

lemma connect_without_endpoint_throws:
  assumes "\<not> p2p s" "typeof options = ''object''" "options \<noteq> JNull"
    and "ToInt32 env (get_prop options ''port'') \<noteq> 0"
    and "INITIALIZE env (init_options_of env options) (logger s) = None"
  shows "thrown (connect env s options listener) \<noteq> None
     \<and> filter is_emit (trace (connect env s options listener)) =
         [Emit ''error'' (Some (Error (unable_to_allocate (init_options_of env options))))]"
  using assms
  by (simp add: connect_def Let_def assoc_options_of_def connect_endpoint_def emit_def on_def)

lemma endpoint_emits_single:
  "endpoint_handlers s = [endpoint] \<Longrightarrow>
     step env s (Endpoint_emits endpoint a) = on_endpoint_communication_up env s endpoint a"
  by simp

lemma shutdown_complete_delivery:
  "step env s (Association_emits a SHUTDOWN_COMPLETE) =
     returns s (concat (map (\<lambda>h. trace (on_association env s h SHUTDOWN_COMPLETE))
       (filter (\<lambda>h. snd h = a) (association_handlers s))))"
  unfolding step.simps
  by (rule run_handlers_traces) (auto simp add: emit_def)

lemma communication_lost_delivery:
  "step env s (Association_emits a (COMMUNICATION_LOST event reason)) =
     returns s (concat (map (\<lambda>h. trace (on_association env s h (COMMUNICATION_LOST event reason)))
       (filter (\<lambda>h. snd h = a) (association_handlers s))))"
  unfolding step.simps
  by (rule run_handlers_traces) (auto simp add: emit_def)

lemma map_of_object_assign:
  "map_of (fold (\<lambda>(k, v). AList.update k v) ps t) = map_of t ++ map_of (rev ps)"
proof (induction ps arbitrary: t)
  case Nil
  show ?case by simp
next
  case (Cons p ps)
  obtain k v where p: "p = (k, v)" by (cases p)
  have "map_of (fold (\<lambda>(k, v). AList.update k v) (p # ps) t)
        = map_of (AList.update k v t) ++ map_of (rev ps)"
    using Cons.IH [of "AList.update k v t"] by (simp add: p)
  also have "\<dots> = map_of t ++ map_of (rev (p # ps))"
    by (simp add: p update_conv' map_add_upd_left)
  finally show ?case .
qed

section \<open>The sample sockets\<close>

lemma wrap32_5000 [simp]: "wrap32 5000 = 5000"
  by (simp add: wrap32_def)

lemma sample_env_fields:
  "INITIALIZE sample_env io lg = Some (sample_endpoint io)"
  "ASSOCIATE sample_env ep ao = sample_association ao"
  "ABORT sample_env a err = None"
  by (simp_all add: sample_env_def)

lemma sample_socket_fields:
  "priv_association sample_socket = None" "\<not> p2p sample_socket" "\<not> logger sample_socket"
  "sctp_sndrcvinfo sample_socket = [(''protocol'', JUndefined)]"
  by (simp_all add: sample_socket_def new_socket_def Let_def)

lemma active_socket_fields:
  "priv_endpoint active_socket = Some active_endpoint"
  "priv_association active_socket = Some active_peer"
  "(active_endpoint, active_peer) \<in> set (association_handlers active_socket)"
  "p2p active_socket"
  "sctp_sndrcvinfo active_socket = [(''protocol'', JUndefined)]"
  unfolding active_socket_def active_endpoint_def active_peer_def
  using connect_active_binds [of sample_socket sample_options sample_env
      "sample_endpoint (init_options_of sample_env sample_options)" JUndefined]
  by (simp_all add: sample_socket_fields sample_options_def sample_env_fields)

lemma wired_active_socket: "wired active_socket"
  by (simp add: wired_def active_socket_fields)

lemma passive_socket_fields:
  "endpoint_handlers passive_socket = [listening_endpoint]"
  "priv_association passive_socket = None"
  "port passive_socket = JNum 5000"
  "host passive_socket = JStr ''10.0.0.1''"
  "p2p passive_socket"
  unfolding passive_socket_def listening_endpoint_def
  using connect_listen_registers [of "sample_socket\<lparr>port := JNum 5000, host := JStr ''10.0.0.1''\<rparr>"
      listen_options sample_env "sample_endpoint (init_options_of sample_env listen_options)"
      JUndefined]
  by (simp_all add: sample_socket_fields listen_options_def sample_env_fields)
    (simp_all add: sample_socket_def new_socket_def Let_def)

lemma passive_socket_peers:
  "expected_peer passive_socket peer1"
  "\<not> strict_eq (as_remotePort stranger) (JNum 5000)"
  by (simp_all add: expected_peer_def passive_socket_fields peer1_def stranger_def)

lemma accepted_socket_fields:
  "endpoint_handlers accepted_socket = [listening_endpoint]"
  "priv_association accepted_socket = Some peer1"
  "port accepted_socket = JNum 5000"
  "host accepted_socket = JStr ''10.0.0.1''"
  "p2p accepted_socket"
  unfolding accepted_socket_def endpoint_emits_single [OF passive_socket_fields(1)]
  using passive_socket_peers(1)
  by (simp_all add: on_endpoint_communication_up_def expected_peer_def priv_construct_def Let_def
      passive_socket_fields)

lemma accepted_socket_peers:
  "expected_peer accepted_socket peer2" "\<not> expected_peer accepted_socket stranger"
  by (simp_all add: expected_peer_def accepted_socket_fields peer2_def stranger_def)

section \<open>The properties\<close>

text \<open>
  C1 (as amended): for every socket that holds an association and every error
  argument, \<^verbatim>\<open>_destroy\<close> calls \<^verbatim>\<open>ABORT\<close> on that association with the error and leaves
  the socket as it is; when \<^verbatim>\<open>ABORT\<close> returns, the completion callback is called once,
  with no error, and \<^verbatim>\<open>_destroy\<close> returns; when \<^verbatim>\<open>ABORT\<close> throws, the exception leaves
  \<^verbatim>\<open>_destroy\<close> and the callback is not called.
\<close>

theorem destroy_follows_abort:
  assumes "priv_association s = Some a"
  shows "AssocAbort a err \<in> set (trace (priv_destroy env s err callback))
     \<and> state (priv_destroy env s err callback) = s
     \<and> thrown (priv_destroy env s err callback) = ABORT env a err
     \<and> filter is_callback (trace (priv_destroy env s err callback)) =
         (if ABORT env a err = None then [Callback callback None] else [])"
  using assms by (cases "ABORT env a err") (simp_all add: priv_destroy_def)

theorem destroy_follows_abort_witness:
  "priv_association active_socket = Some active_peer
   \<and> thrown (priv_destroy sample_env active_socket JNull 7) = None
   \<and> filter is_callback (trace (priv_destroy sample_env active_socket JNull 7)) =
       [Callback 7 None]"
  using destroy_follows_abort [OF active_socket_fields(2), of JNull sample_env 7]
  by (simp add: active_socket_fields sample_env_fields)

text \<open>
  The claim as stated fails where the abort fails: on a connected socket whose
  association throws from \<^verbatim>\<open>ABORT\<close>, \<^verbatim>\<open>_destroy\<close> throws that error and the callback is
  never called.
\<close>

theorem destroy_abort_fails_counterexample:
  "thrown (priv_destroy failing_abort_env active_socket JNull 7) = Some (Error ''abort failed'')
   \<and> Callback 7 None \<notin> set (trace (priv_destroy failing_abort_env active_socket JNull 7))"
  by (simp add: priv_destroy_def active_socket_fields failing_abort_env_def sample_env_def log_def)

text \<open>
  C2 (as amended): on a socket that holds an association, after \<^verbatim>\<open>connect\<close>, the
  association held changes in two ways only. A call of \<^verbatim>\<open>_construct\<close> from outside puts
  its second argument in its place, and unbinds the socket when it has none. In passive
  mode a further inbound association from the expected peer is not aborted: the socket
  is bound to it in place of the first, and the handlers on the first stay registered
  beside the new ones. A further inbound association that is not from the expected peer
  is aborted and the socket is left as it is; a socket with no handler on the announcing
  endpoint, as an actively connected one, ignores the announcement; and every other
  call and event leaves the association held as it is.
\<close>

theorem association_changes_by_construct_or_expected_peer:
  assumes "p2p s" and "priv_association s = Some a1"
  shows "(\<not> rebinding c \<longrightarrow> priv_association (state (step env s c)) = Some a1)
     \<and> priv_association (state (step env s (Call_construct e a))) = a
     \<and> (endpoint \<notin> set (endpoint_handlers s) \<longrightarrow>
            step env s (Endpoint_emits endpoint a2) = returns s [])
     \<and> (endpoint_handlers s = [endpoint] \<and> expected_peer s a2 \<longrightarrow>
            priv_association (state (step env s (Endpoint_emits endpoint a2))) = Some a2
          \<and> filter is_abort (trace (step env s (Endpoint_emits endpoint a2))) = []
          \<and> association_handlers (state (step env s (Endpoint_emits endpoint a2))) =
              association_handlers s @ [(endpoint, a2)])
     \<and> (endpoint_handlers s = [endpoint] \<and> \<not> expected_peer s a2 \<longrightarrow>
            filter is_abort (trace (step env s (Endpoint_emits endpoint a2))) =
              [AssocAbort a2 JUndefined]
          \<and> state (step env s (Endpoint_emits endpoint a2)) = s)"
proof -
  have keep: "\<not> rebinding c \<longrightarrow> priv_association (state (step env s c)) = Some a1"
    using other_calls_keep_association [OF assms(1), of c env] assms(2) by simp
  have construct: "priv_association (state (step env s (Call_construct e a))) = a"
    by (simp add: priv_construct_def Let_def split: option.splits)
  have elsewhere: "endpoint \<notin> set (endpoint_handlers s) \<longrightarrow>
      step env s (Endpoint_emits endpoint a2) = returns s []"
    using endpoint_emits_elsewhere by blast
  have listening: "endpoint_handlers s = [endpoint] \<Longrightarrow>
      (expected_peer s a2 \<longrightarrow>
         priv_association (state (step env s (Endpoint_emits endpoint a2))) = Some a2
       \<and> filter is_abort (trace (step env s (Endpoint_emits endpoint a2))) = []
       \<and> association_handlers (state (step env s (Endpoint_emits endpoint a2))) =
           association_handlers s @ [(endpoint, a2)])
    \<and> (\<not> expected_peer s a2 \<longrightarrow>
         filter is_abort (trace (step env s (Endpoint_emits endpoint a2))) =
           [AssocAbort a2 JUndefined]
       \<and> state (step env s (Endpoint_emits endpoint a2)) = s)"
    by (simp only: endpoint_emits_single)
      (simp add: on_endpoint_communication_up_def expected_peer_def priv_construct_def Let_def
        split: option.splits)
  from keep construct elsewhere listening show ?thesis by blast
qed

theorem association_changes_by_construct_or_expected_peer_witness:
  "priv_association (state (step sample_env accepted_socket (Call_final 7))) = Some peer1
   \<and> priv_association
       (state (step sample_env accepted_socket (Call_construct listening_endpoint None))) = None
   \<and> priv_association
       (state (step sample_env accepted_socket (Endpoint_emits listening_endpoint peer2))) =
     Some peer2
   \<and> association_handlers
       (state (step sample_env accepted_socket (Endpoint_emits listening_endpoint peer2))) =
     association_handlers accepted_socket @ [(listening_endpoint, peer2)]
   \<and> filter is_abort
       (trace (step sample_env accepted_socket (Endpoint_emits listening_endpoint stranger))) =
     [AssocAbort stranger JUndefined]
   \<and> state (step sample_env accepted_socket (Endpoint_emits listening_endpoint stranger)) =
     accepted_socket"
  using association_changes_by_construct_or_expected_peer
      [OF accepted_socket_fields(5,2), of "Call_final 7" sample_env listening_endpoint None
        listening_endpoint peer2]
    association_changes_by_construct_or_expected_peer
      [OF accepted_socket_fields(5,2), of "Call_final 7" sample_env listening_endpoint None
        listening_endpoint stranger]
  by (simp add: accepted_socket_peers accepted_socket_fields)

text \<open>
  The claim as stated fails at a second association from the expected peer: the
  listening socket bound to \<open>peer1\<close> is given \<open>peer2\<close>, a different association with the
  same remote address and port; it is not aborted, and the socket now holds \<open>peer2\<close>.
\<close>

theorem second_peer_rebinds_counterexample:
  "priv_association accepted_socket = Some peer1
   \<and> peer2 \<noteq> peer1
   \<and> priv_association
       (state (step sample_env accepted_socket (Endpoint_emits listening_endpoint peer2))) =
     Some peer2
   \<and> AssocAbort peer2 JUndefined \<notin>
       set (trace (step sample_env accepted_socket (Endpoint_emits listening_endpoint peer2)))"
  unfolding endpoint_emits_single [OF accepted_socket_fields(1)]
  using accepted_socket_peers(1)
  by (simp add: on_endpoint_communication_up_def expected_peer_def priv_construct_def Let_def
      accepted_socket_fields log_def peer1_def peer2_def)

text \<open>
  C3 (as amended): on a first call, \<^verbatim>\<open>connect\<close> with options whose \<^verbatim>\<open>typeof\<close> is not
  \<^verbatim>\<open>'object'\<close> (absent, a primitive, a function) throws \<^verbatim>\<open>'options required'\<close>, and with
  an object whose port is missing or coerces to zero it throws \<^verbatim>\<open>'port is required'\<close>.
  In both cases no endpoint is initialised, and the one change to the socket is that
  \<^verbatim>\<open>p2p\<close> is now set.
\<close>

theorem connect_rejects_bad_options:
  assumes "\<not> p2p s"
  shows "(typeof options \<noteq> ''object'' \<longrightarrow>
            connect env s options listener =
              throws (s\<lparr>p2p := True\<rparr>) [] (Error ''options required''))
     \<and> (typeof options = ''object'' \<and> options \<noteq> JNull \<and>
          ToInt32 env (get_prop options ''port'') = 0 \<longrightarrow>
            connect env s options listener =
              throws (s\<lparr>p2p := True\<rparr>) (log s ''debug'' ''connect'') (Error ''port is required''))
     \<and> (typeof options \<noteq> ''object'' \<or> options \<noteq> JNull \<and>
          ToInt32 env (get_prop options ''port'') = 0 \<longrightarrow>
            filter is_initialize (trace (connect env s options listener)) = [])"
  using assms by (auto simp add: connect_def Let_def assoc_options_of_def log_def)

theorem connect_rejects_bad_options_witness:
  "connect sample_env sample_socket JUndefined JUndefined =
     throws (sample_socket\<lparr>p2p := True\<rparr>) [] (Error ''options required'')
   \<and> connect sample_env sample_socket (JObj 1 []) JUndefined =
     throws (sample_socket\<lparr>p2p := True\<rparr>) [] (Error ''port is required'')"
  using connect_rejects_bad_options [of sample_socket JUndefined sample_env JUndefined]
    connect_rejects_bad_options [of sample_socket "JObj 1 []" sample_env JUndefined]
  by (simp add: sample_socket_fields log_def)

text \<open>
  The claim as stated fails in its last part: \<^verbatim>\<open>connect\<close> without options on a fresh
  socket throws, and the socket it leaves has \<^verbatim>\<open>p2p\<close> set, which the fresh one had not.
\<close>

theorem connect_sets_flag_before_throwing_counterexample:
  "thrown (connect sample_env sample_socket JUndefined JUndefined) =
     Some (Error ''options required'')
   \<and> \<not> p2p sample_socket
   \<and> p2p (state (connect sample_env sample_socket JUndefined JUndefined))"
  by (simp add: connect_def sample_socket_fields Let_def)

text \<open>
  C4: when \<^verbatim>\<open>Endpoint.INITIALIZE\<close> yields no endpoint, \<^verbatim>\<open>connect\<close> should emit an
  \<^verbatim>\<open>'error'\<close> naming the local port and not throw. The code emits the error and goes on:
  with port 5000 and local port 6000, on a socket with an \<^verbatim>\<open>'error'\<close> listener the event
  \<^verbatim>\<open>'unable to allocate port 6000'\<close> is emitted and then the call of \<^verbatim>\<open>ASSOCIATE\<close> on the
  missing endpoint throws a \<^verbatim>\<open>TypeError\<close>; on a socket without such a listener the
  emitter throws the error itself.
\<close>

theorem connect_throws_when_no_endpoint:
  "filter is_emit (trace (connect no_port_env watched_socket local_port_options JUndefined)) =
     [Emit ''error'' (Some (Error ''unable to allocate port 6000''))]
   \<and> thrown (connect no_port_env watched_socket local_port_options JUndefined) =
     Some (TypeError ''endpoint.ASSOCIATE'')
   \<and> thrown (connect no_port_env sample_socket local_port_options JUndefined) =
     Some (Error ''unable to allocate port 6000'')"
  by (simp add: connect_def Let_def assoc_options_of_def init_options_of_def connect_endpoint_def
      emit_def on_def no_port_env_def sample_env_def watched_socket_def sample_socket_def
      new_socket_def local_port_options_def unable_to_allocate_def show_int_def show_nat.simps
      log_def wrap32_def)

text \<open>
  C5: a write of a chunk on a socket that holds an association makes exactly one call
  of \<^verbatim>\<open>SEND\<close>, on that association, with the chunk, the default send parameters as they
  are and the callback, and calls no callback itself; on a socket that holds none it
  makes no call of \<^verbatim>\<open>SEND\<close> and calls the callback once with the error
  \<^verbatim>\<open>'no association established'\<close>. Either way it returns and leaves the socket as it
  is. \<^verbatim>\<open>SCTP_DEFAULT_SEND_PARAM\<close> with an object keeps the binding and merges the object
  into the defaults, its values winning; with \<^verbatim>\<open>{protocol: 7}\<close> the defaults are the
  earlier ones with protocol 7.
\<close>

theorem write_forwards_or_fails:
  "(priv_association s = Some a \<longrightarrow>
      filter is_send (trace (priv_write s chunk options callback)) =
        [AssocSend a chunk (sctp_sndrcvinfo s) callback]
      \<and> filter is_callback (trace (priv_write s chunk options callback)) = [])
   \<and> (priv_association s = None \<longrightarrow>
      filter is_callback (trace (priv_write s chunk options callback)) =
        [Callback callback (Some (Error ''no association established''))]
      \<and> filter is_send (trace (priv_write s chunk options callback)) = [])
   \<and> thrown (priv_write s chunk options callback) = None
   \<and> state (priv_write s chunk options callback) = s
   \<and> priv_association (state (SCTP_DEFAULT_SEND_PARAM s (JObj b ps))) = priv_association s
   \<and> map_of (sctp_sndrcvinfo (state (SCTP_DEFAULT_SEND_PARAM s (JObj b ps)))) =
        map_of (sctp_sndrcvinfo s) ++ map_of (rev ps)
   \<and> map_of (sctp_sndrcvinfo
        (state (SCTP_DEFAULT_SEND_PARAM s (JObj b [(''protocol'', JNum 7)])))) =
        (map_of (sctp_sndrcvinfo s))(''protocol'' \<mapsto> JNum 7)"
  by (cases "priv_association s")
    (simp_all add: priv_write_def SCTP_DEFAULT_SEND_PARAM_def object_assign_def
      map_of_object_assign update_conv')

theorem write_forwards_or_fails_witness:
  "filter is_send
     (trace (priv_write (state (SCTP_DEFAULT_SEND_PARAM active_socket protocol_options))
        (JStr ''X'') JUndefined 7)) =
     [AssocSend active_peer (JStr ''X'') [(''protocol'', JNum 7)] 7]
   \<and> filter is_callback (trace (priv_write sample_socket (JStr ''X'') JUndefined 7)) =
     [Callback 7 (Some (Error ''no association established''))]"
proof -
  let ?s = "state (SCTP_DEFAULT_SEND_PARAM active_socket protocol_options)"
  have bound: "priv_association ?s = Some active_peer"
    and info: "sctp_sndrcvinfo ?s = [(''protocol'', JNum 7)]"
    by (simp_all add: SCTP_DEFAULT_SEND_PARAM_def active_socket_fields protocol_options_def
        object_assign_def)
  show ?thesis
    using write_forwards_or_fails [of ?s active_peer "JStr ''X''" JUndefined 7]
      write_forwards_or_fails [of sample_socket undefined "JStr ''X''" JUndefined 7]
    by (simp add: bound info sample_socket_fields)
qed

text \<open>
  C6: on a socket bound to an endpoint and an association (and wired, as every socket
  is that the constructor and the calls produce), when the association emits
  shutdown-complete the socket emits \<^verbatim>\<open>'end'\<close> and no \<^verbatim>\<open>'close'\<close>; when it emits
  communication-lost the socket emits \<^verbatim>\<open>'close'\<close> and no \<^verbatim>\<open>'end'\<close>; and with \<^verbatim>\<open>p2p\<close> set
  both also call \<^verbatim>\<open>DESTROY\<close> on the endpoint.
\<close>

theorem end_on_shutdown_close_on_loss:
  assumes "wired s" and "priv_endpoint s = Some endpoint"
    and "priv_association s = Some association"
  shows "Emit ''end'' None \<in>
           set (trace (step env s (Association_emits association SHUTDOWN_COMPLETE)))
     \<and> (\<forall>x. Emit ''close'' x \<notin>
           set (trace (step env s (Association_emits association SHUTDOWN_COMPLETE))))
     \<and> (p2p s \<longrightarrow> EndpointDestroy endpoint \<in>
           set (trace (step env s (Association_emits association SHUTDOWN_COMPLETE))))
     \<and> Emit ''close'' None \<in>
           set (trace (step env s (Association_emits association (COMMUNICATION_LOST event reason))))
     \<and> (\<forall>x. Emit ''end'' x \<notin>
           set (trace (step env s (Association_emits association (COMMUNICATION_LOST event reason)))))
     \<and> (p2p s \<longrightarrow> EndpointDestroy endpoint \<in>
           set (trace (step env s (Association_emits association (COMMUNICATION_LOST event reason)))))"
proof -
  have "(endpoint, association) \<in> set (association_handlers s)"
    using assms by (simp add: wired_def)
  then show ?thesis
    unfolding shutdown_complete_delivery communication_lost_delivery
    by (auto simp add: log_def intro!: bexI [where x = "(endpoint, association)"])
qed

theorem end_on_shutdown_close_on_loss_witness:
  "p2p active_socket
   \<and> Emit ''end'' None \<in>
       set (trace (step sample_env active_socket (Association_emits active_peer SHUTDOWN_COMPLETE)))
   \<and> EndpointDestroy active_endpoint \<in>
       set (trace (step sample_env active_socket (Association_emits active_peer SHUTDOWN_COMPLETE)))
   \<and> Emit ''close'' None \<in>
       set (trace (step sample_env active_socket
         (Association_emits active_peer (COMMUNICATION_LOST JNull JNull))))"
  using end_on_shutdown_close_on_loss [OF wired_active_socket active_socket_fields(1,2),
      of sample_env JNull JNull]
  by (simp add: active_socket_fields)

text \<open>
  C7: on a socket in passive mode (its handler is on the endpoint), an inbound
  association whose remote port and address are the socket's \<^verbatim>\<open>port\<close> and \<^verbatim>\<open>host\<close> is
  bound to the socket and \<^verbatim>\<open>'connect'\<close> is emitted, with no abort; an inbound association
  with another remote port is aborted, nothing is emitted and the socket is left as it
  is, so unbound if it was and not ended.
\<close>

theorem passive_binds_expected_peer_only:
  assumes "endpoint_handlers s = [endpoint]"
  shows "(expected_peer s a \<longrightarrow>
            priv_association (state (step env s (Endpoint_emits endpoint a))) = Some a
          \<and> priv_endpoint (state (step env s (Endpoint_emits endpoint a))) = Some endpoint
          \<and> filter is_emit (trace (step env s (Endpoint_emits endpoint a))) =
              [Emit ''connect'' None]
          \<and> filter is_abort (trace (step env s (Endpoint_emits endpoint a))) = []
          \<and> thrown (step env s (Endpoint_emits endpoint a)) = None)
     \<and> (\<not> strict_eq (as_remotePort a) (port s) \<longrightarrow>
            filter is_abort (trace (step env s (Endpoint_emits endpoint a))) =
              [AssocAbort a JUndefined]
          \<and> filter is_emit (trace (step env s (Endpoint_emits endpoint a))) = []
          \<and> state (step env s (Endpoint_emits endpoint a)) = s)"
  unfolding endpoint_emits_single [OF assms]
  by (simp add: on_endpoint_communication_up_def expected_peer_def priv_construct_def Let_def
      split: option.splits)

theorem passive_binds_expected_peer_only_witness:
  "priv_association passive_socket = None
   \<and> priv_association
       (state (step sample_env passive_socket (Endpoint_emits listening_endpoint peer1))) =
     Some peer1
   \<and> filter is_emit
       (trace (step sample_env passive_socket (Endpoint_emits listening_endpoint peer1))) =
     [Emit ''connect'' None]
   \<and> filter is_abort
       (trace (step sample_env passive_socket (Endpoint_emits listening_endpoint stranger))) =
     [AssocAbort stranger JUndefined]
   \<and> state (step sample_env passive_socket (Endpoint_emits listening_endpoint stranger)) =
     passive_socket"
  using passive_binds_expected_peer_only [OF passive_socket_fields(1), of peer1 sample_env]
    passive_binds_expected_peer_only [OF passive_socket_fields(1), of stranger sample_env]
  by (simp add: passive_socket_peers passive_socket_fields)

text \<open>
  C8: once \<^verbatim>\<open>connect\<close> has been called, whatever it was given and however it ended, and
  whatever calls and events came after, another call of \<^verbatim>\<open>connect\<close> with any arguments
  returns at once: no action (no endpoint is initialised, nothing is emitted), no
  exception, and the socket is left as it was.
\<close>

theorem connect_again_is_noop:
  "connect env (fst (run env (state (connect env s options listener)) cs)) options' listener' =
     returns (fst (run env (state (connect env s options listener)) cs)) []"
proof -
  have "p2p (fst (run env (state (connect env s options listener)) cs))"
    by (rule p2p_run) (rule p2p_connect)
  then show ?thesis by (simp add: connect_def)
qed

text \<open>
  C9 (as amended): an end-of-output request calls its completion callback only if the
  socket holds an association. With none, \<^verbatim>\<open>_final\<close> does nothing at all: the callback is
  never called and the graceful close never completes. With one, \<^verbatim>\<open>_final\<close> does not
  call the callback itself: it makes one call, \<^verbatim>\<open>SHUTDOWN\<close> on the association held, with
  the callback, which is then called when that shutdown completes and never when the
  association stalls.
\<close>

theorem final_callback_needs_association_and_completion:
  "(priv_association s = None \<longrightarrow>
      priv_final s callback = returns s []
      \<and> concat (map (callbacks_of completes) (trace (priv_final s callback))) = [])
   \<and> (priv_association s = Some a \<longrightarrow>
      priv_final s callback = returns s [AssocShutdown a callback]
      \<and> concat (map (callbacks_of completes) (trace (priv_final s callback))) =
          (if completes a then [Callback callback None] else []))
   \<and> filter is_callback (trace (priv_final s callback)) = []"
  by (cases "priv_association s") (simp_all add: priv_final_def SHUTDOWN_def)

theorem final_callback_needs_association_and_completion_witness:
  "priv_final sample_socket 7 = returns sample_socket []
   \<and> concat (map (callbacks_of always_completes) (trace (priv_final sample_socket 7))) = []
   \<and> priv_final active_socket 7 = returns active_socket [AssocShutdown active_peer 7]
   \<and> concat (map (callbacks_of always_completes) (trace (priv_final active_socket 7))) =
       [Callback 7 None]"
  using final_callback_needs_association_and_completion
      [where s = sample_socket and callback = 7 and completes = always_completes
        and a = active_peer]
    final_callback_needs_association_and_completion
      [where s = active_socket and callback = 7 and completes = always_completes
        and a = active_peer]
  by (simp add: sample_socket_fields active_socket_fields always_completes_def SHUTDOWN_def)

text \<open>
  The claim as stated fails in its "if" half: the connected socket holds an
  association, and when that association stalls in its shutdown the callback handed to
  \<^verbatim>\<open>_final\<close> is never called.
\<close>

theorem final_callback_stalls_counterexample:
  "priv_association active_socket = Some active_peer
   \<and> concat (map (callbacks_of never_completes) (trace (priv_final active_socket 7))) = []"
  by (simp add: priv_final_def active_socket_fields SHUTDOWN_def never_completes_def)

text \<open>
  C10: \<^verbatim>\<open>_construct\<close> sets \<^verbatim>\<open>bufferSize\<close>, \<^verbatim>\<open>bytesRead\<close> and \<^verbatim>\<open>bytesWritten\<close> to 0, and no
  sequence of later calls and events (writes, arriving data, lifecycle events, a further
  binding) gives any of them another value; a write and a handler on the association
  leave the whole socket as it is.
\<close>

theorem counters_stay_zero:
  "counters_zero (fst (run env (state (priv_construct s endpoint association)) cs))
   \<and> state (priv_write s' chunk options callback) = s'
   \<and> state (on_association env s' h event) = s'"
proof -
  have "counters_zero (fst (run env (state (priv_construct s endpoint association)) cs))"
    by (rule run_preserves [where P = counters_zero])
      (simp_all add: counters_zero_def priv_construct_def Let_def split: option.splits)
  then show ?thesis by (simp add: priv_write_def split: option.splits)
qed

end
